theory Spec2Isabelle
  imports Main "HOL-Library.Word"
begin

section \<open>TranslucentTB: the tray glue of \<^verbatim>\<open>main.cpp\<close> and the appearance core\<close>

text \<open>
  The development embeds \<^verbatim>\<open>src/TranslucentTB/main.cpp\<close>: the accent-state tables, the
  configuration file operations (\<^verbatim>\<open>LoadConfig\<close>, \<^verbatim>\<open>SaveConfig\<close>, \<^verbatim>\<open>SetConfig\<close>), the menu
  binding helpers (\<^verbatim>\<open>BindColor\<close>, \<^verbatim>\<open>BindByMap\<close>, \<^verbatim>\<open>BindBool\<close>, \<^verbatim>\<open>BindBoolToEnabled\<close>,
  \<^verbatim>\<open>BindAppearance\<close>) and \<^verbatim>\<open>InitializeTray\<close> with its message handlers and its folder
  watcher. Mutable program state is passed explicitly; a callback is a state transformer.
  The headers the file includes are not part of the sources at hand, so what they declare
  is either a parameter (record \<open>env\<close>) or modelled from the specification and marked so.
\<close>

subsection \<open>Data model\<close>

text \<open>
  Modelled from the spec: the enumeration \<^verbatim>\<open>ACCENT_STATE\<close> of \<^verbatim>\<open>undoc/swca.hpp\<close>, which is
  missing. The specification lists the accents Normal, TransparentGradient, Gradient,
  BlurBehind and AcrylicBlurBehind; the enumerator names are the ones \<^verbatim>\<open>main.cpp\<close> uses.
\<close>

datatype ACCENT_STATE =
    ACCENT_NORMAL
  | ACCENT_ENABLE_TRANSPARENTGRADIENT
  | ACCENT_ENABLE_GRADIENT
  | ACCENT_ENABLE_BLURBEHIND
  | ACCENT_ENABLE_ACRYLICBLURBEHIND

text \<open>
  Modelled from the spec: \<^verbatim>\<open>PeekBehavior\<close> of \<^verbatim>\<open>config/config.hpp\<close>, which is missing.
\<close>

datatype PeekBehavior =
    AlwaysShow
  | WindowMaximisedOnMainMonitor
  | WindowMaximisedOnAnyMonitor
  | DesktopIsForegroundWindow
  | AlwaysHide

text \<open>The levels of \<^verbatim>\<open>spdlog::level::level_enum\<close>.\<close>

datatype level_enum = trace | debug | info | warn | err | critical | off

type_synonym COLORREF = "32 word"

text \<open>
  Modelled from the spec: \<^verbatim>\<open>TaskbarAppearance\<close>, \<^verbatim>\<open>OptionalTaskbarAppearance\<close> and
  \<^verbatim>\<open>Config\<close> of \<^verbatim>\<open>config/config.hpp\<close>, which is missing. \<^verbatim>\<open>main.cpp\<close> passes an
  \<^verbatim>\<open>OptionalTaskbarAppearance\<close> where a \<^verbatim>\<open>TaskbarAppearance &\<close> is expected, so the optional
  appearance extends the plain one.
\<close>

record TaskbarAppearance =
  Accent :: ACCENT_STATE
  Color :: COLORREF

record OptionalTaskbarAppearance = TaskbarAppearance +
  Enabled :: bool

record Config =
  DesktopAppearance :: TaskbarAppearance
  VisibleWindowAppearance :: OptionalTaskbarAppearance
  MaximisedWindowAppearance :: OptionalTaskbarAppearance
  StartOpenedAppearance :: OptionalTaskbarAppearance
  CortanaOpenedAppearance :: OptionalTaskbarAppearance
  TimelineOpenedAppearance :: OptionalTaskbarAppearance
  Peek :: PeekBehavior
  UseRegularAppearanceWhenPeeking :: bool
  HideTray :: bool
  LogVerbosity :: level_enum
  DisableSaving :: bool

subsection \<open>Menu identifiers and the button tables\<close>

text \<open>
  \<^verbatim>\<open>resources/ids.h\<close> is missing, so the numeric values of the menu identifiers are
  unknown. A menu identifier is represented by its name; distinct names stand for distinct
  menu items. Where the code compares identifiers by value (\<^verbatim>\<open>std::minmax_element\<close> in
  \<^verbatim>\<open>BindByMap\<close>) the values are a parameter.
\<close>

type_synonym menu_id = string

abbreviation ID_DESKTOP_NORMAL :: menu_id where "ID_DESKTOP_NORMAL \<equiv> ''ID_DESKTOP_NORMAL''"
abbreviation ID_DESKTOP_CLEAR :: menu_id where "ID_DESKTOP_CLEAR \<equiv> ''ID_DESKTOP_CLEAR''"
abbreviation ID_DESKTOP_OPAQUE :: menu_id where "ID_DESKTOP_OPAQUE \<equiv> ''ID_DESKTOP_OPAQUE''"
abbreviation ID_DESKTOP_BLUR :: menu_id where "ID_DESKTOP_BLUR \<equiv> ''ID_DESKTOP_BLUR''"
abbreviation ID_DESKTOP_ACRYLIC :: menu_id where "ID_DESKTOP_ACRYLIC \<equiv> ''ID_DESKTOP_ACRYLIC''"
abbreviation ID_VISIBLE_NORMAL :: menu_id where "ID_VISIBLE_NORMAL \<equiv> ''ID_VISIBLE_NORMAL''"
abbreviation ID_VISIBLE_CLEAR :: menu_id where "ID_VISIBLE_CLEAR \<equiv> ''ID_VISIBLE_CLEAR''"
abbreviation ID_VISIBLE_OPAQUE :: menu_id where "ID_VISIBLE_OPAQUE \<equiv> ''ID_VISIBLE_OPAQUE''"
abbreviation ID_VISIBLE_BLUR :: menu_id where "ID_VISIBLE_BLUR \<equiv> ''ID_VISIBLE_BLUR''"
abbreviation ID_VISIBLE_ACRYLIC :: menu_id where "ID_VISIBLE_ACRYLIC \<equiv> ''ID_VISIBLE_ACRYLIC''"
abbreviation ID_MAXIMISED_NORMAL :: menu_id where "ID_MAXIMISED_NORMAL \<equiv> ''ID_MAXIMISED_NORMAL''"
abbreviation ID_MAXIMISED_CLEAR :: menu_id where "ID_MAXIMISED_CLEAR \<equiv> ''ID_MAXIMISED_CLEAR''"
abbreviation ID_MAXIMISED_OPAQUE :: menu_id where "ID_MAXIMISED_OPAQUE \<equiv> ''ID_MAXIMISED_OPAQUE''"
abbreviation ID_MAXIMISED_BLUR :: menu_id where "ID_MAXIMISED_BLUR \<equiv> ''ID_MAXIMISED_BLUR''"
abbreviation ID_MAXIMISED_ACRYLIC :: menu_id where "ID_MAXIMISED_ACRYLIC \<equiv> ''ID_MAXIMISED_ACRYLIC''"
abbreviation ID_START_NORMAL :: menu_id where "ID_START_NORMAL \<equiv> ''ID_START_NORMAL''"
abbreviation ID_START_CLEAR :: menu_id where "ID_START_CLEAR \<equiv> ''ID_START_CLEAR''"
abbreviation ID_START_OPAQUE :: menu_id where "ID_START_OPAQUE \<equiv> ''ID_START_OPAQUE''"
abbreviation ID_START_BLUR :: menu_id where "ID_START_BLUR \<equiv> ''ID_START_BLUR''"
abbreviation ID_START_ACRYLIC :: menu_id where "ID_START_ACRYLIC \<equiv> ''ID_START_ACRYLIC''"
abbreviation ID_CORTANA_NORMAL :: menu_id where "ID_CORTANA_NORMAL \<equiv> ''ID_CORTANA_NORMAL''"
abbreviation ID_CORTANA_CLEAR :: menu_id where "ID_CORTANA_CLEAR \<equiv> ''ID_CORTANA_CLEAR''"
abbreviation ID_CORTANA_OPAQUE :: menu_id where "ID_CORTANA_OPAQUE \<equiv> ''ID_CORTANA_OPAQUE''"
abbreviation ID_CORTANA_BLUR :: menu_id where "ID_CORTANA_BLUR \<equiv> ''ID_CORTANA_BLUR''"
abbreviation ID_CORTANA_ACRYLIC :: menu_id where "ID_CORTANA_ACRYLIC \<equiv> ''ID_CORTANA_ACRYLIC''"
abbreviation ID_TIMELINE_NORMAL :: menu_id where "ID_TIMELINE_NORMAL \<equiv> ''ID_TIMELINE_NORMAL''"
abbreviation ID_TIMELINE_CLEAR :: menu_id where "ID_TIMELINE_CLEAR \<equiv> ''ID_TIMELINE_CLEAR''"
abbreviation ID_TIMELINE_OPAQUE :: menu_id where "ID_TIMELINE_OPAQUE \<equiv> ''ID_TIMELINE_OPAQUE''"
abbreviation ID_TIMELINE_BLUR :: menu_id where "ID_TIMELINE_BLUR \<equiv> ''ID_TIMELINE_BLUR''"
abbreviation ID_TIMELINE_ACRYLIC :: menu_id where "ID_TIMELINE_ACRYLIC \<equiv> ''ID_TIMELINE_ACRYLIC''"
abbreviation ID_PEEK_SHOW :: menu_id where "ID_PEEK_SHOW \<equiv> ''ID_PEEK_SHOW''"
abbreviation ID_PEEK_DYNAMIC_MAIN_MONITOR :: menu_id where
  "ID_PEEK_DYNAMIC_MAIN_MONITOR \<equiv> ''ID_PEEK_DYNAMIC_MAIN_MONITOR''"
abbreviation ID_PEEK_DYNAMIC_ANY_MONITOR :: menu_id where
  "ID_PEEK_DYNAMIC_ANY_MONITOR \<equiv> ''ID_PEEK_DYNAMIC_ANY_MONITOR''"
abbreviation ID_PEEK_DYNAMIC_FOREGROUND_DESKTOP :: menu_id where
  "ID_PEEK_DYNAMIC_FOREGROUND_DESKTOP \<equiv> ''ID_PEEK_DYNAMIC_FOREGROUND_DESKTOP''"
abbreviation ID_PEEK_HIDE :: menu_id where "ID_PEEK_HIDE \<equiv> ''ID_PEEK_HIDE''"
abbreviation ID_LOG_DEBUG :: menu_id where "ID_LOG_DEBUG \<equiv> ''ID_LOG_DEBUG''"
abbreviation ID_LOG_INFO :: menu_id where "ID_LOG_INFO \<equiv> ''ID_LOG_INFO''"
abbreviation ID_LOG_WARN :: menu_id where "ID_LOG_WARN \<equiv> ''ID_LOG_WARN''"
abbreviation ID_LOG_ERR :: menu_id where "ID_LOG_ERR \<equiv> ''ID_LOG_ERR''"
abbreviation ID_LOG_OFF :: menu_id where "ID_LOG_OFF \<equiv> ''ID_LOG_OFF''"
abbreviation ID_AUTOSTART :: menu_id where "ID_AUTOSTART \<equiv> ''ID_AUTOSTART''"
abbreviation ID_OPENLOG :: menu_id where "ID_OPENLOG \<equiv> ''ID_OPENLOG''"
abbreviation ID_LOG :: menu_id where "ID_LOG \<equiv> ''ID_LOG''"
abbreviation ID_DESKTOP_COLOR :: menu_id where "ID_DESKTOP_COLOR \<equiv> ''ID_DESKTOP_COLOR''"
abbreviation ID_VISIBLE_COLOR :: menu_id where "ID_VISIBLE_COLOR \<equiv> ''ID_VISIBLE_COLOR''"
abbreviation ID_MAXIMISED_COLOR :: menu_id where "ID_MAXIMISED_COLOR \<equiv> ''ID_MAXIMISED_COLOR''"
abbreviation ID_START_COLOR :: menu_id where "ID_START_COLOR \<equiv> ''ID_START_COLOR''"
abbreviation ID_CORTANA_COLOR :: menu_id where "ID_CORTANA_COLOR \<equiv> ''ID_CORTANA_COLOR''"
abbreviation ID_TIMELINE_COLOR :: menu_id where "ID_TIMELINE_COLOR \<equiv> ''ID_TIMELINE_COLOR''"
abbreviation ID_DESKTOP_ON_PEEK :: menu_id where "ID_DESKTOP_ON_PEEK \<equiv> ''ID_DESKTOP_ON_PEEK''"
abbreviation ID_VISIBLE :: menu_id where "ID_VISIBLE \<equiv> ''ID_VISIBLE''"
abbreviation ID_MAXIMISED :: menu_id where "ID_MAXIMISED \<equiv> ''ID_MAXIMISED''"
abbreviation ID_START :: menu_id where "ID_START \<equiv> ''ID_START''"
abbreviation ID_CORTANA :: menu_id where "ID_CORTANA \<equiv> ''ID_CORTANA''"
abbreviation ID_TIMELINE :: menu_id where "ID_TIMELINE \<equiv> ''ID_TIMELINE''"
abbreviation ID_EDITSETTINGS :: menu_id where "ID_EDITSETTINGS \<equiv> ''ID_EDITSETTINGS''"
abbreviation ID_RETURNTODEFAULTSETTINGS :: menu_id where
  "ID_RETURNTODEFAULTSETTINGS \<equiv> ''ID_RETURNTODEFAULTSETTINGS''"
abbreviation ID_DISABLESAVING :: menu_id where "ID_DISABLESAVING \<equiv> ''ID_DISABLESAVING''"
abbreviation ID_HIDETRAY :: menu_id where "ID_HIDETRAY \<equiv> ''ID_HIDETRAY''"
abbreviation ID_DUMPWORKER :: menu_id where "ID_DUMPWORKER \<equiv> ''ID_DUMPWORKER''"
abbreviation ID_RESETWORKER :: menu_id where "ID_RESETWORKER \<equiv> ''ID_RESETWORKER''"
abbreviation ID_ABOUT :: menu_id where "ID_ABOUT \<equiv> ''ID_ABOUT''"
abbreviation ID_EXITWITHOUTSAVING :: menu_id where
  "ID_EXITWITHOUTSAVING \<equiv> ''ID_EXITWITHOUTSAVING''"
abbreviation ID_TIPS :: menu_id where "ID_TIPS \<equiv> ''ID_TIPS''"
abbreviation ID_EXIT :: menu_id where "ID_EXIT \<equiv> ''ID_EXIT''"

text \<open>
  The \<^verbatim>\<open>std::unordered_map\<close> tables, as association lists in the order of their
  initialisers. No initialiser repeats a key, so every pair is in the map.
\<close>

definition DESKTOP_BUTTOM_MAP :: "(ACCENT_STATE \<times> menu_id) list" where
  "DESKTOP_BUTTOM_MAP =
    [(ACCENT_NORMAL, ID_DESKTOP_NORMAL),
     (ACCENT_ENABLE_TRANSPARENTGRADIENT, ID_DESKTOP_CLEAR),
     (ACCENT_ENABLE_GRADIENT, ID_DESKTOP_OPAQUE),
     (ACCENT_ENABLE_BLURBEHIND, ID_DESKTOP_BLUR),
     (ACCENT_ENABLE_ACRYLICBLURBEHIND, ID_DESKTOP_ACRYLIC)]"

definition VISIBLE_BUTTOM_MAP :: "(ACCENT_STATE \<times> menu_id) list" where
  "VISIBLE_BUTTOM_MAP =
    [(ACCENT_NORMAL, ID_VISIBLE_NORMAL),
     (ACCENT_ENABLE_TRANSPARENTGRADIENT, ID_VISIBLE_CLEAR),
     (ACCENT_ENABLE_GRADIENT, ID_VISIBLE_OPAQUE),
     (ACCENT_ENABLE_BLURBEHIND, ID_VISIBLE_BLUR),
     (ACCENT_ENABLE_ACRYLICBLURBEHIND, ID_VISIBLE_ACRYLIC)]"

definition MAXIMISED_BUTTON_MAP :: "(ACCENT_STATE \<times> menu_id) list" where
  "MAXIMISED_BUTTON_MAP =
    [(ACCENT_NORMAL, ID_MAXIMISED_NORMAL),
     (ACCENT_ENABLE_TRANSPARENTGRADIENT, ID_MAXIMISED_CLEAR),
     (ACCENT_ENABLE_GRADIENT, ID_MAXIMISED_OPAQUE),
     (ACCENT_ENABLE_BLURBEHIND, ID_MAXIMISED_BLUR),
     (ACCENT_ENABLE_ACRYLICBLURBEHIND, ID_MAXIMISED_ACRYLIC)]"

definition START_BUTTON_MAP :: "(ACCENT_STATE \<times> menu_id) list" where
  "START_BUTTON_MAP =
    [(ACCENT_NORMAL, ID_START_NORMAL),
     (ACCENT_ENABLE_TRANSPARENTGRADIENT, ID_START_CLEAR),
     (ACCENT_ENABLE_GRADIENT, ID_START_OPAQUE),
     (ACCENT_ENABLE_BLURBEHIND, ID_START_BLUR),
     (ACCENT_ENABLE_ACRYLICBLURBEHIND, ID_START_ACRYLIC)]"

definition CORTANA_BUTTON_MAP :: "(ACCENT_STATE \<times> menu_id) list" where
  "CORTANA_BUTTON_MAP =
    [(ACCENT_NORMAL, ID_CORTANA_NORMAL),
     (ACCENT_ENABLE_TRANSPARENTGRADIENT, ID_CORTANA_CLEAR),
     (ACCENT_ENABLE_GRADIENT, ID_CORTANA_OPAQUE),
     (ACCENT_ENABLE_BLURBEHIND, ID_CORTANA_BLUR),
     (ACCENT_ENABLE_ACRYLICBLURBEHIND, ID_CORTANA_ACRYLIC)]"

definition TIMELINE_BUTTON_MAP :: "(ACCENT_STATE \<times> menu_id) list" where
  "TIMELINE_BUTTON_MAP =
    [(ACCENT_NORMAL, ID_TIMELINE_NORMAL),
     (ACCENT_ENABLE_TRANSPARENTGRADIENT, ID_TIMELINE_CLEAR),
     (ACCENT_ENABLE_GRADIENT, ID_TIMELINE_OPAQUE),
     (ACCENT_ENABLE_BLURBEHIND, ID_TIMELINE_BLUR),
     (ACCENT_ENABLE_ACRYLICBLURBEHIND, ID_TIMELINE_ACRYLIC)]"

definition PEEK_BUTTON_MAP :: "(PeekBehavior \<times> menu_id) list" where
  "PEEK_BUTTON_MAP =
    [(AlwaysShow, ID_PEEK_SHOW),
     (WindowMaximisedOnMainMonitor, ID_PEEK_DYNAMIC_MAIN_MONITOR),
     (WindowMaximisedOnAnyMonitor, ID_PEEK_DYNAMIC_ANY_MONITOR),
     (DesktopIsForegroundWindow, ID_PEEK_DYNAMIC_FOREGROUND_DESKTOP),
     (AlwaysHide, ID_PEEK_HIDE)]"

definition LOG_BUTTON_MAP :: "(level_enum \<times> menu_id) list" where
  "LOG_BUTTON_MAP =
    [(debug, ID_LOG_DEBUG),
     (info, ID_LOG_INFO),
     (warn, ID_LOG_WARN),
     (err, ID_LOG_ERR),
     (off, ID_LOG_OFF)]"

subsection \<open>Program state, file system and collaborators\<close>

type_synonym path = string

datatype fs_node = RegularFile string | Directory | OtherNode

text \<open>
  The file system: what each path names (nothing when the path does not exist), the paths
  that cannot be opened for output whatever they name (a read-only file, a missing folder,
  a missing permission), and the paths that were written, oldest first. The last field only
  records the writes; no function of the program reads it. Asking for the status of a path
  is taken to succeed, and so is opening a regular file for input.
\<close>

record filesystem =
  nodes :: "path \<rightharpoonup> fs_node"
  unwritable :: "path list"
  written :: "path list"

definition is_regular_file :: "filesystem \<Rightarrow> path \<Rightarrow> bool" where
  "is_regular_file fs p = (case nodes fs p of Some (RegularFile _) \<Rightarrow> True | _ \<Rightarrow> False)"

definition file_text :: "filesystem \<Rightarrow> path \<Rightarrow> string" where
  "file_text fs p = (case nodes fs p of Some (RegularFile s) \<Rightarrow> s | _ \<Rightarrow> [])"

text \<open>
  \<^verbatim>\<open>std::wofstream fileStream(file)\<close> creates the file or truncates a regular file. On a
  directory, on another node that is not a file, and on an unwritable path the stream does
  not open.
\<close>

definition can_open_for_output :: "filesystem \<Rightarrow> path \<Rightarrow> bool" where
  "can_open_for_output fs p =
    (p \<notin> set (unwritable fs) \<and>
     (case nodes fs p of
        None \<Rightarrow> True
      | Some (RegularFile _) \<Rightarrow> True
      | Some Directory \<Rightarrow> False
      | Some OtherNode \<Rightarrow> False))"

text \<open>
  Everything sent to an output stream on \<open>p\<close> until it is closed. \<^verbatim>\<open>main.cpp\<close> never tests
  the stream: when it did not open, every output to it is dropped and the file system
  stays as it is.
\<close>

definition write_file :: "path \<Rightarrow> string \<Rightarrow> filesystem \<Rightarrow> filesystem" where
  "write_file p s fs =
    (if can_open_for_output fs p
     then fs\<lparr>nodes := (nodes fs)(p \<mapsto> RegularFile s), written := written fs @ [p]\<rparr>
     else fs)"

datatype InitializationState = NotInitialized | Done | Failed

text \<open>
  \<^verbatim>\<open>Autostart::StartupState\<close>; the enumerators carry the prefix \<open>Startup_\<close> because \<open>Enabled\<close>
  is already the member of the optional appearance.
\<close>

datatype StartupState =
    Startup_Disabled
  | Startup_DisabledByUser
  | Startup_Enabled
  | Startup_DisabledByPolicy
  | Startup_EnabledByPolicy

datatype window_message = WM_FILECHANGED | WM_CLOSE | WM_QUERYENDSESSION | WM_ENDSESSION | WM_QUIT

text \<open>
  Calls that leave the program (a dialog, the shell, the worker object of
  \<^verbatim>\<open>taskbar/taskbarattributeworker.hpp\<close>) are recorded in the order they are made.
\<close>

datatype effect =
    Log_Open
  | EditFile path
  | OpenLink string
  | AboutDialog_Run
  | RegisterApplicationRestart
  | MessageBox string
  | Autostart_SetStartupState StartupState
  | Worker_Construct
  | Worker_DumpState
  | Worker_ResetState

text \<open>
  What the missing headers supply: the default member initialisers of \<^verbatim>\<open>Config\<close>, its
  \<^verbatim>\<open>Deserialize\<close> (applied to the parsed text of the file) and \<^verbatim>\<open>Serialize\<close>, the constants
  \<^verbatim>\<open>CONFIG_FILE\<close> and \<^verbatim>\<open>APP_NAME\<close>, \<^verbatim>\<open>Util::IgnoreCaseStringEquals\<close>,
  \<^verbatim>\<open>UWP::HasPackageIdentity\<close>, the values of the menu identifiers, and the answer of the
  user to the message box of the hide-tray command.
\<close>

record env =
  default_Config :: Config
  Deserialize :: "string \<Rightarrow> Config \<Rightarrow> Config"
  Serialize :: "Config \<Rightarrow> string"
  CONFIG_FILE :: string
  APP_NAME :: string
  IgnoreCaseStringEquals :: "string \<Rightarrow> string \<Rightarrow> bool"
  HasPackageIdentity :: bool
  id_value :: "menu_id \<Rightarrow> nat"
  MessageBox_IDYES :: "string \<Rightarrow> bool"

text \<open>
  The mutable state: the shared \<^verbatim>\<open>static Config cfg\<close>, \<^verbatim>\<open>run.config_file\<close>, the file
  system, whether the tray icon is shown, the logger, the autostart task, the messages
  posted to the window and not yet handled, and the outside calls made so far.
\<close>

record prog =
  cfg :: Config
  run_config_file :: path
  files :: filesystem
  icon_shown :: bool
  log_level :: level_enum
  log_state :: InitializationState
  startup_state :: StartupState
  msg_queue :: "window_message list"
  effects :: "effect list"

subsection \<open>Configuration\<close>

definition LoadConfig :: "env \<Rightarrow> filesystem \<Rightarrow> path \<Rightarrow> Config" where
  "LoadConfig E fs file =
    (let c = default_Config E in
     if is_regular_file fs file then Deserialize E (file_text fs file) c else c)"

text \<open>
  What \<^verbatim>\<open>SaveConfig\<close> sends to the stream: the comment line, then the object that the
  writer prints; \<open>Serialize\<close> stands for the members between \<^verbatim>\<open>StartObject\<close> and
  \<^verbatim>\<open>EndObject\<close>.
\<close>

definition config_header :: string where
  "config_header = ''// For reference on this format, see TODO''"

definition config_text :: "env \<Rightarrow> Config \<Rightarrow> string" where
  "config_text E c = config_header @ [CHR 0x0A] @ ''{'' @ Serialize E c @ ''}''"

definition SaveConfig :: "env \<Rightarrow> Config \<Rightarrow> path \<Rightarrow> bool \<Rightarrow> filesystem \<Rightarrow> filesystem" where
  "SaveConfig E c file override fs =
    (if override \<or> \<not> DisableSaving c then write_file file (config_text E c) fs else fs)"

definition icon_Hide :: "prog \<Rightarrow> prog" where
  "icon_Hide st = st\<lparr>icon_shown := False\<rparr>"

definition icon_Show :: "prog \<Rightarrow> prog" where
  "icon_Show st = st\<lparr>icon_shown := True\<rparr>"

definition Log_SetLevel :: "level_enum \<Rightarrow> prog \<Rightarrow> prog" where
  "Log_SetLevel l st = st\<lparr>log_level := l\<rparr>"

text \<open>
  \<^verbatim>\<open>SetConfig(current, newConfig, icon)\<close>; its only caller passes the shared \<^verbatim>\<open>cfg\<close> as
  \<^verbatim>\<open>current\<close> and the tray as \<^verbatim>\<open>icon\<close>.
\<close>

definition SetConfig :: "Config \<Rightarrow> prog \<Rightarrow> prog" where
  "SetConfig newConfig st =
    (let st1 = (if HideTray (cfg st) \<noteq> HideTray newConfig
                then (if HideTray newConfig then icon_Hide st else icon_Show st)
                else st);
         st2 = (if LogVerbosity (cfg st1) \<noteq> LogVerbosity newConfig
                then Log_SetLevel (LogVerbosity newConfig) st1
                else st1)
     in st2\<lparr>cfg := newConfig\<rparr>)"

subsection \<open>Tray\<close>

text \<open>
  A C++ reference to an object that lives in the program state: how to read it and how to
  assign to it. \<open>cfg_field\<close> is a reference to a member of the shared \<^verbatim>\<open>cfg\<close>; the other
  three are the members of an appearance that is itself referred to.
\<close>

record 'a ref =
  rd :: "prog \<Rightarrow> 'a"
  wr :: "'a \<Rightarrow> prog \<Rightarrow> prog"

definition cfg_field :: "(Config \<Rightarrow> 'a) \<Rightarrow> (('a \<Rightarrow> 'a) \<Rightarrow> Config \<Rightarrow> Config) \<Rightarrow> 'a ref" where
  "cfg_field sel upd =
    \<lparr>rd = (\<lambda>st. sel (cfg st)), wr = (\<lambda>v st. st\<lparr>cfg := upd (\<lambda>_. v) (cfg st)\<rparr>)\<rparr>"

definition Accent_of :: "'m TaskbarAppearance_scheme ref \<Rightarrow> ACCENT_STATE ref" where
  "Accent_of a = \<lparr>rd = (\<lambda>st. Accent (rd a st)), wr = (\<lambda>v st. wr a ((rd a st)\<lparr>Accent := v\<rparr>) st)\<rparr>"

definition Color_of :: "'m TaskbarAppearance_scheme ref \<Rightarrow> COLORREF ref" where
  "Color_of a = \<lparr>rd = (\<lambda>st. Color (rd a st)), wr = (\<lambda>v st. wr a ((rd a st)\<lparr>Color := v\<rparr>) st)\<rparr>"

definition Enabled_of :: "OptionalTaskbarAppearance ref \<Rightarrow> bool ref" where
  "Enabled_of a = \<lparr>rd = (\<lambda>st. Enabled (rd a st)), wr = (\<lambda>v st. wr a ((rd a st)\<lparr>Enabled := v\<rparr>) st)\<rparr>"

datatype error = out_of_range | empty_map

datatype updater_op =
    CheckRadio menu_id menu_id menu_id
  | CheckItem menu_id bool
  | EnableItem menu_id bool
  | SetText menu_id string
  | RemoveItem menu_id

text \<open>
  \<^verbatim>\<open>tray/traycontextmenu.hpp\<close> is missing. The tray menu is what \<^verbatim>\<open>main.cpp\<close> puts into
  it: the callbacks registered per menu item and the refresh handlers, each in the order of
  registration, and the edits made through \<^verbatim>\<open>tray.Update()\<close>. A refresh handler yields the
  calls it makes on the \<^verbatim>\<open>Updater\<close>, or the exception it throws.
\<close>

record TrayContextMenu =
  menu_callbacks :: "(menu_id \<times> (prog \<Rightarrow> prog)) list"
  custom_refresh :: "(prog \<Rightarrow> error + updater_op list) list"
  menu_edits :: "updater_op list"

definition RegisterContextMenuCallback ::
  "menu_id \<Rightarrow> (prog \<Rightarrow> prog) \<Rightarrow> TrayContextMenu \<Rightarrow> TrayContextMenu" where
  "RegisterContextMenuCallback item f tray =
    tray\<lparr>menu_callbacks := menu_callbacks tray @ [(item, f)]\<rparr>"

definition RegisterCustomRefresh ::
  "(prog \<Rightarrow> error + updater_op list) \<Rightarrow> TrayContextMenu \<Rightarrow> TrayContextMenu" where
  "RegisterCustomRefresh f tray = tray\<lparr>custom_refresh := custom_refresh tray @ [f]\<rparr>"

text \<open>Activating a menu item runs the callbacks registered for it, oldest first.\<close>

definition click :: "TrayContextMenu \<Rightarrow> menu_id \<Rightarrow> prog \<Rightarrow> prog" where
  "click tray item st =
    fold (\<lambda>(i, f) s. if i = item then f s else s) (menu_callbacks tray) st"

definition BindColor :: "TrayContextMenu \<Rightarrow> menu_id \<Rightarrow> COLORREF ref \<Rightarrow> TrayContextMenu" where
  "BindColor tray item color = tray"

text \<open>
  \<^verbatim>\<open>std::minmax_element\<close> with \<^verbatim>\<open>Util::map_value_compare\<close>: the first entry with the
  smallest identifier and the last entry with the largest one.
\<close>

fun min_entry :: "(menu_id \<Rightarrow> nat) \<Rightarrow> ('a \<times> menu_id) list \<Rightarrow> ('a \<times> menu_id) option" where
  "min_entry v [] = None"
| "min_entry v (x # xs) = Some (fold (\<lambda>y m. if v (snd y) < v (snd m) then y else m) xs x)"

fun max_entry :: "(menu_id \<Rightarrow> nat) \<Rightarrow> ('a \<times> menu_id) list \<Rightarrow> ('a \<times> menu_id) option" where
  "max_entry v [] = None"
| "max_entry v (x # xs) = Some (fold (\<lambda>y m. if v (snd y) < v (snd m) then m else y) xs x)"

text \<open>
  \<^verbatim>\<open>BindByMap\<close> with a getter and a setter. On an empty table the source dereferences the
  end iterator; the model reports that when the menu is refreshed. \<^verbatim>\<open>map.at\<close> throws on
  a value that the table does not list.
\<close>

definition BindByMap ::
  "env \<Rightarrow> TrayContextMenu \<Rightarrow> ('a \<times> menu_id) list \<Rightarrow> (prog \<Rightarrow> 'a) \<Rightarrow> ('a \<Rightarrow> prog \<Rightarrow> prog)
    \<Rightarrow> TrayContextMenu" where
  "BindByMap E tray table getter setter =
    (let tray1 = fold (\<lambda>(new_value, item) t.
                   RegisterContextMenuCallback item (\<lambda>st. setter new_value st) t) table tray
     in RegisterCustomRefresh
          (\<lambda>st. case (min_entry (id_value E) table, max_entry (id_value E) table) of
                   (Some min_p, Some max_p) \<Rightarrow>
                     (case map_of table (getter st) of
                        None \<Rightarrow> Inl out_of_range
                      | Some item \<Rightarrow> Inr [CheckRadio (snd min_p) (snd max_p) item])
                 | _ \<Rightarrow> Inl empty_map)
          tray1)"

definition BindByMap_ref ::
  "env \<Rightarrow> TrayContextMenu \<Rightarrow> ('a \<times> menu_id) list \<Rightarrow> 'a ref \<Rightarrow> TrayContextMenu" where
  "BindByMap_ref E tray table val =
    BindByMap E tray table (\<lambda>st. rd val st) (\<lambda>new_value st. wr val new_value st)"

text \<open>The callback of \<^verbatim>\<open>BindBool\<close>: \<^verbatim>\<open>value = !value\<close>.\<close>

definition toggle :: "bool ref \<Rightarrow> prog \<Rightarrow> prog" where
  "toggle val st = wr val (\<not> rd val st) st"

definition BindBool :: "TrayContextMenu \<Rightarrow> menu_id \<Rightarrow> bool ref \<Rightarrow> TrayContextMenu" where
  "BindBool tray item val =
    RegisterCustomRefresh (\<lambda>st. Inr [CheckItem item (rd val st)])
      (RegisterContextMenuCallback item (toggle val) tray)"

definition BindBoolToEnabled :: "TrayContextMenu \<Rightarrow> menu_id \<Rightarrow> bool ref \<Rightarrow> TrayContextMenu" where
  "BindBoolToEnabled tray item val =
    RegisterCustomRefresh (\<lambda>st. Inr [EnableItem item (rd val st)]) tray"

definition BindAppearance ::
  "env \<Rightarrow> TrayContextMenu \<Rightarrow> 'm TaskbarAppearance_scheme ref \<Rightarrow> menu_id
    \<Rightarrow> (ACCENT_STATE \<times> menu_id) list \<Rightarrow> TrayContextMenu" where
  "BindAppearance E tray appearance colorId table =
    BindByMap_ref E (BindColor tray colorId (Color_of appearance)) table (Accent_of appearance)"

definition BindAppearance_optional ::
  "env \<Rightarrow> TrayContextMenu \<Rightarrow> OptionalTaskbarAppearance ref \<Rightarrow> menu_id \<Rightarrow> menu_id
    \<Rightarrow> (ACCENT_STATE \<times> menu_id) list \<Rightarrow> TrayContextMenu" where
  "BindAppearance_optional E tray appearance enableId colorId table =
    (let tray1 = BindBool tray enableId (Enabled_of appearance);
         tray2 = BindAppearance E tray1 appearance colorId table
     in fold (\<lambda>(_, item) t. BindBoolToEnabled t item (Enabled_of appearance)) table tray2)"

definition EnableAppearanceColor :: "menu_id \<Rightarrow> OptionalTaskbarAppearance \<Rightarrow> updater_op" where
  "EnableAppearanceColor item appearance =
    EnableItem item (Enabled appearance \<and> Accent appearance \<noteq> ACCENT_NORMAL)"

text \<open>
  \<^verbatim>\<open>RefreshMenu\<close>: the calls on the \<^verbatim>\<open>Updater\<close> before the coroutine suspends, then the
  ones after the startup state has arrived.
\<close>

definition RefreshMenu :: "env \<Rightarrow> prog \<Rightarrow> updater_op list" where
  "RefreshMenu E st =
    (let c = cfg st; state = startup_state st in
     [EnableItem ID_AUTOSTART False, CheckItem ID_AUTOSTART False]
     @ (if HasPackageIdentity E then [SetText ID_AUTOSTART ''Querying startup state...''] else [])
     @ [EnableItem ID_OPENLOG (log_state st = Done),
        SetText ID_OPENLOG
          (if log_state st = Done then ''Open log file''
           else if log_state st = Failed then ''Error when initializing log file''
           else ''Nothing has been logged yet''),
        EnableItem ID_LOG (log_state st \<noteq> Failed),
        CheckItem ID_LOG (log_level st \<noteq> off),
        EnableItem ID_DESKTOP_COLOR (Accent (DesktopAppearance c) \<noteq> ACCENT_NORMAL),
        EnableAppearanceColor ID_VISIBLE_COLOR (VisibleWindowAppearance c),
        EnableAppearanceColor ID_MAXIMISED_COLOR (MaximisedWindowAppearance c),
        EnableAppearanceColor ID_START_COLOR (StartOpenedAppearance c),
        EnableAppearanceColor ID_CORTANA_COLOR (CortanaOpenedAppearance c),
        EnableAppearanceColor ID_TIMELINE_COLOR (TimelineOpenedAppearance c)]
     @ (if HasPackageIdentity E then
          [EnableItem ID_AUTOSTART
             (\<not> (state = Startup_DisabledByUser \<or> state = Startup_DisabledByPolicy \<or> state = Startup_EnabledByPolicy)),
           CheckItem ID_AUTOSTART (state = Startup_Enabled \<or> state = Startup_EnabledByPolicy),
           SetText ID_AUTOSTART
             (case state of
                Startup_DisabledByUser \<Rightarrow> ''Startup has been disabled in Task Manager''
              | Startup_DisabledByPolicy \<Rightarrow> ''Startup has been disabled in Group Policy''
              | Startup_EnabledByPolicy \<Rightarrow> ''Startup has been enabled in Group Policy''
              | Startup_Enabled \<Rightarrow> ''Open at boot''
              | Startup_Disabled \<Rightarrow> ''Open at boot'')]
        else []))"

subsection \<open>Startup: the message window, the folder watcher and the tray\<close>

definition add_effect :: "effect \<Rightarrow> prog \<Rightarrow> prog" where
  "add_effect e st = st\<lparr>effects := effects st @ [e]\<rparr>"

definition post_message :: "window_message \<Rightarrow> prog \<Rightarrow> prog" where
  "post_message m st = st\<lparr>msg_queue := msg_queue st @ [m]\<rparr>"

definition PostQuitMessage :: "prog \<Rightarrow> prog" where
  "PostQuitMessage st = post_message WM_QUIT st"

text \<open>\<^verbatim>\<open>SaveConfig(c, run.config_file)\<close> on the file system of the program state.\<close>

definition SaveConfig_run :: "env \<Rightarrow> Config \<Rightarrow> prog \<Rightarrow> prog" where
  "SaveConfig_run E c st = st\<lparr>files := SaveConfig E c (run_config_file st) False (files st)\<rparr>"

text \<open>
  The callback given to \<^verbatim>\<open>wil::make_folder_change_reader\<close>. It runs on the watcher's
  thread; \<open>file\<close> is the name the watcher reports.
\<close>

definition folder_change_callback :: "env \<Rightarrow> string \<Rightarrow> prog \<Rightarrow> prog" where
  "folder_change_callback E file st =
    (if file = [] \<or> IgnoreCaseStringEquals E file (CONFIG_FILE E)
     then post_message WM_FILECHANGED st
     else st)"

text \<open>
  \<^verbatim>\<open>windows/messagewindow.hpp\<close> is missing. A handler takes \<^verbatim>\<open>wParam\<close> and \<^verbatim>\<open>lParam\<close> and
  returns the result of the message; the window holds the handlers registered per message.
\<close>

type_synonym handler = "int \<Rightarrow> int \<Rightarrow> prog \<Rightarrow> int \<times> prog"

record MessageWindow =
  window_callbacks :: "(window_message \<times> handler) list"

definition RegisterCallback :: "window_message \<Rightarrow> handler \<Rightarrow> MessageWindow \<Rightarrow> MessageWindow" where
  "RegisterCallback m h w = w\<lparr>window_callbacks := window_callbacks w @ [(m, h)]\<rparr>"

definition save_and_exit :: "env \<Rightarrow> prog \<Rightarrow> int \<times> prog" where
  "save_and_exit E st = (1, PostQuitMessage (SaveConfig_run E (cfg st) st))"

definition ENDSESSION_CLOSEAPP :: int where
  "ENDSESSION_CLOSEAPP = 1"

definition InitializeTray_window :: "env \<Rightarrow> MessageWindow" where
  "InitializeTray_window E =
    (let w = \<lparr>window_callbacks = []\<rparr>;
         w = RegisterCallback WM_FILECHANGED
               (\<lambda>_ _ st. (1, SetConfig (LoadConfig E (files st) (run_config_file st)) st)) w;
         w = RegisterCallback WM_CLOSE (\<lambda>_ _ st. save_and_exit E st) w;
         w = RegisterCallback WM_QUERYENDSESSION
               (\<lambda>_ lParam st.
                  (1, if and lParam ENDSESSION_CLOSEAPP \<noteq> 0
                      then add_effect RegisterApplicationRestart st else st)) w;
         w = RegisterCallback WM_ENDSESSION
               (\<lambda>wParam _ st.
                  (0, if wParam \<noteq> 0 then SaveConfig_run E (cfg st) st else st)) w
     in w)"

definition hide_tray_text :: "env \<Rightarrow> prog \<Rightarrow> string" where
  "hide_tray_text E st =
    ''To see the tray icon again, ''
    @ (if HasPackageIdentity E then ''reset '' @ APP_NAME E @ '' in the Settings app or '' else [])
    @ ''edit the configuration file at '' @ run_config_file st
    @ ''.'' @ [CHR 0x0A, CHR 0x0A] @ ''Are you sure you want to proceed?''"

definition hide_tray :: "env \<Rightarrow> prog \<Rightarrow> prog" where
  "hide_tray E st =
    (let str = hide_tray_text E st;
         st1 = add_effect (MessageBox str) st
     in if MessageBox_IDYES E str
        then (let st2 = st1\<lparr>cfg := (cfg st1)\<lparr>HideTray := True\<rparr>\<rparr>;
                  st3 = icon_Hide st2
              in SaveConfig_run E (cfg st3) st3)
        else st1)"

definition toggle_autostart :: "prog \<Rightarrow> prog" where
  "toggle_autostart st =
    add_effect (Autostart_SetStartupState
      (if startup_state st = Startup_Enabled then Startup_Disabled else Startup_Enabled)) st"

text \<open>The setter given to \<^verbatim>\<open>BindByMap\<close> for the log level, and two menu commands.\<close>

definition set_log_level :: "level_enum \<Rightarrow> prog \<Rightarrow> prog" where
  "set_log_level new_value st =
    (let st1 = Log_SetLevel new_value st
     in st1\<lparr>cfg := (cfg st1)\<lparr>LogVerbosity := new_value\<rparr>\<rparr>)"

definition edit_settings :: "env \<Rightarrow> prog \<Rightarrow> prog" where
  "edit_settings E st =
    (let st1 = SaveConfig_run E (cfg st) st
     in add_effect (EditFile (run_config_file st1)) st1)"

definition return_to_default_settings :: "env \<Rightarrow> prog \<Rightarrow> prog" where
  "return_to_default_settings E st = SaveConfig_run E (default_Config E) st"

definition InitializeTray_tray :: "env \<Rightarrow> TrayContextMenu" where
  "InitializeTray_tray E =
    (let t = \<lparr>menu_callbacks = [], custom_refresh = [], menu_edits = []\<rparr>;
         t = BindBool t ID_DESKTOP_ON_PEEK
               (cfg_field UseRegularAppearanceWhenPeeking UseRegularAppearanceWhenPeeking_update);
         t = BindAppearance E t (cfg_field DesktopAppearance DesktopAppearance_update)
               ID_DESKTOP_COLOR DESKTOP_BUTTOM_MAP;
         t = BindAppearance_optional E t
               (cfg_field VisibleWindowAppearance VisibleWindowAppearance_update)
               ID_VISIBLE ID_VISIBLE_COLOR VISIBLE_BUTTOM_MAP;
         t = BindAppearance_optional E t
               (cfg_field MaximisedWindowAppearance MaximisedWindowAppearance_update)
               ID_MAXIMISED ID_MAXIMISED_COLOR MAXIMISED_BUTTON_MAP;
         t = BindAppearance_optional E t
               (cfg_field StartOpenedAppearance StartOpenedAppearance_update)
               ID_START ID_START_COLOR START_BUTTON_MAP;
         t = BindAppearance_optional E t
               (cfg_field CortanaOpenedAppearance CortanaOpenedAppearance_update)
               ID_CORTANA ID_CORTANA_COLOR CORTANA_BUTTON_MAP;
         t = BindAppearance_optional E t
               (cfg_field TimelineOpenedAppearance TimelineOpenedAppearance_update)
               ID_TIMELINE ID_TIMELINE_COLOR TIMELINE_BUTTON_MAP;
         t = BindByMap_ref E t PEEK_BUTTON_MAP (cfg_field Peek Peek_update);
         t = RegisterContextMenuCallback ID_OPENLOG (add_effect Log_Open) t;
         t = BindByMap E t LOG_BUTTON_MAP (\<lambda>st. log_level st) set_log_level;
         t = RegisterContextMenuCallback ID_EDITSETTINGS (edit_settings E) t;
         t = RegisterContextMenuCallback ID_RETURNTODEFAULTSETTINGS
               (return_to_default_settings E) t;
         t = BindBool t ID_DISABLESAVING (cfg_field DisableSaving DisableSaving_update);
         t = RegisterContextMenuCallback ID_HIDETRAY (hide_tray E) t;
         t = RegisterContextMenuCallback ID_DUMPWORKER (add_effect Worker_DumpState) t;
         t = RegisterContextMenuCallback ID_RESETWORKER (add_effect Worker_ResetState) t;
         t = RegisterContextMenuCallback ID_ABOUT (add_effect AboutDialog_Run) t;
         t = RegisterContextMenuCallback ID_EXITWITHOUTSAVING PostQuitMessage t;
         t = (if HasPackageIdentity E
              then RegisterContextMenuCallback ID_AUTOSTART toggle_autostart t
              else t\<lparr>menu_edits := menu_edits t @ [RemoveItem ID_AUTOSTART]\<rparr>);
         t = RegisterContextMenuCallback ID_TIPS
               (add_effect (OpenLink (''https://'' @ APP_NAME E @ ''.github.io/tips''))) t;
         t = RegisterContextMenuCallback ID_EXIT (\<lambda>st. snd (save_and_exit E st)) t;
         t = RegisterCustomRefresh (\<lambda>st. Inr (RefreshMenu E st)) t
     in t)"

text \<open>
  What \<^verbatim>\<open>InitializeTray\<close> does to the state right away: it hides the icon when the
  configuration says so and constructs the worker on the shared \<^verbatim>\<open>cfg\<close>. The calls to
  \<^verbatim>\<open>DarkThemeManager\<close> only theme the window and the icon and are left out.
\<close>

definition InitializeTray :: "env \<Rightarrow> prog \<Rightarrow> MessageWindow \<times> TrayContextMenu \<times> prog" where
  "InitializeTray E st =
    (InitializeTray_window E, InitializeTray_tray E,
     add_effect Worker_Construct (if HideTray (cfg st) then icon_Hide st else st))"

text \<open>
  The message loop hands a message to the handler registered for it (to the first one, had
  there been several; \<^verbatim>\<open>InitializeTray\<close> registers one per message). A message without
  a handler gets the default result and changes nothing. A posted message carries zero
  parameters.
\<close>

definition dispatch :: "MessageWindow \<Rightarrow> window_message \<Rightarrow> int \<Rightarrow> int \<Rightarrow> prog \<Rightarrow> int \<times> prog" where
  "dispatch w m wParam lParam st =
    (case map_of (window_callbacks w) m of
       None \<Rightarrow> (0, st)
     | Some h \<Rightarrow> h wParam lParam st)"

definition pump :: "MessageWindow \<Rightarrow> prog \<Rightarrow> prog" where
  "pump w st =
    (case msg_queue st of
       [] \<Rightarrow> st
     | m # ms \<Rightarrow> snd (dispatch w m 0 0 (st\<lparr>msg_queue := ms\<rparr>)))"

subsection \<open>The appearance core: resolver and applier\<close>

text \<open>
  Modelled from the spec: the classification of section 4.1 and the window state snapshot
  of section 3. The worker of \<^verbatim>\<open>taskbar/taskbarattributeworker.hpp\<close> is missing. The
  snapshot gives, per monitor, the classification of the foreground-relevant window and
  whether the foreground window there is maximised.
\<close>

datatype Classification =
    Desktop
  | StartMenu
  | SearchOrCortana
  | TimelineOrTaskView
  | MaximisedApp
  | RegularApp
  | NoWindow

type_synonym monitor = nat

record WindowStateSnapshot =
  PeekActive :: bool
  DesktopIsForeground :: bool
  MainMonitor :: monitor
  Monitors :: "monitor list"
  ForegroundMaximised :: "monitor \<Rightarrow> bool"
  ClassificationOn :: "monitor \<Rightarrow> Classification"

text \<open>
  Modelled from the spec: the \<^verbatim>\<open>PeekBehavior\<close> rules of step 1 of section 4.2, which say
  when a peek shows the desktop appearance.
\<close>

fun peek_qualifies :: "PeekBehavior \<Rightarrow> WindowStateSnapshot \<Rightarrow> bool" where
  "peek_qualifies AlwaysShow snap = True"
| "peek_qualifies WindowMaximisedOnMainMonitor snap = ForegroundMaximised snap (MainMonitor snap)"
| "peek_qualifies WindowMaximisedOnAnyMonitor snap =
     list_ex (ForegroundMaximised snap) (Monitors snap)"
| "peek_qualifies DesktopIsForegroundWindow snap = DesktopIsForeground snap"
| "peek_qualifies AlwaysHide snap = False"

text \<open>
  Modelled from the spec: step 2 of section 4.2, the optional appearance that the
  classification selects; "otherwise" takes every classification that is not named before.
\<close>

fun selected_appearance :: "Config \<Rightarrow> Classification \<Rightarrow> OptionalTaskbarAppearance" where
  "selected_appearance c StartMenu = StartOpenedAppearance c"
| "selected_appearance c SearchOrCortana = CortanaOpenedAppearance c"
| "selected_appearance c TimelineOrTaskView = TimelineOpenedAppearance c"
| "selected_appearance c MaximisedApp = MaximisedWindowAppearance c"
| "selected_appearance c _ = VisibleWindowAppearance c"

text \<open>
  Modelled from the spec: \<^verbatim>\<open>Resolve(config, snapshot, monitor)\<close> of section 4.2, steps 1
  to 3. The worker that implements it is missing.
\<close>

definition Resolve :: "Config \<Rightarrow> WindowStateSnapshot \<Rightarrow> monitor \<Rightarrow> TaskbarAppearance" where
  "Resolve config snapshot mon =
    (if PeekActive snapshot \<and> peek_qualifies (Peek config) snapshot
        \<and> \<not> UseRegularAppearanceWhenPeeking config
     then DesktopAppearance config
     else (let sel = selected_appearance config (ClassificationOn snapshot mon)
           in if Enabled sel then TaskbarAppearance.truncate sel
              else DesktopAppearance config))"

text \<open>
  Modelled from the spec: how the operating system answers a composition call, after the
  taxonomy of section 7. A transient failure (a stale or invalid window handle, a rejected
  call) is retried on the next trigger; an unsupported environment is logged once and
  nothing further is done for the instance until \<^verbatim>\<open>ResetState\<close>.
\<close>

datatype os_result = Accepted | TransientOSFailure | UnsupportedEnvironment

text \<open>
  Modelled from the spec: the taskbar instance of section 3. \<open>lastApplied\<close> is absent
  after \<^verbatim>\<open>ResetState\<close> has cleared it and before the first successful call;
  \<open>Unsupported\<close> holds from the answer \<open>UnsupportedEnvironment\<close> until \<^verbatim>\<open>ResetState\<close>.
\<close>

record TaskbarInstance =
  TaskbarWindow :: nat
  OwningMonitor :: monitor
  lastApplied :: "TaskbarAppearance option"
  Unsupported :: bool

text \<open>
  The composition interface of the operating system as the applier sees it: the calls made
  so far, oldest first, each with the window it targets, and the failures logged so far.
  The answer to each call is a parameter, indexed by the number of the call.
\<close>

record composition =
  os_calls :: "(nat \<times> TaskbarAppearance) list"
  os_log :: "os_result list"

definition same_appearance :: "TaskbarAppearance option \<Rightarrow> TaskbarAppearance \<Rightarrow> bool" where
  "same_appearance prev a =
    (case prev of None \<Rightarrow> False | Some l \<Rightarrow> Accent l = Accent a \<and> Color l = Color a)"

text \<open>
  Modelled from the spec: \<^verbatim>\<open>Apply(taskbarInstance, appearance)\<close> of section 4.3 with the
  failures of section 7. The worker runs it once per instance on every trigger (section
  4.5). It does nothing for an instance marked unsupported, and it skips the call when the
  appearance equals \<open>lastApplied\<close> in accent and colour. Otherwise it makes one call, never
  a second one in the same run: on success it updates \<open>lastApplied\<close>; on a transient
  failure it logs and leaves the instance as it is, so that the next trigger tries again;
  on an unsupported environment it logs and marks the instance. The worker that implements
  it is missing.
\<close>

definition Apply ::
  "(nat \<Rightarrow> os_result) \<Rightarrow> TaskbarInstance \<Rightarrow> TaskbarAppearance \<Rightarrow> composition
    \<Rightarrow> TaskbarInstance \<times> composition" where
  "Apply answer inst appearance os =
    (if Unsupported inst then (inst, os)
     else if same_appearance (lastApplied inst) appearance then (inst, os)
     else (let os1 = os\<lparr>os_calls := os_calls os @ [(TaskbarWindow inst, appearance)]\<rparr>
           in case answer (length (os_calls os)) of
                Accepted \<Rightarrow> (inst\<lparr>lastApplied := Some appearance\<rparr>, os1)
              | TransientOSFailure \<Rightarrow>
                  (inst, os1\<lparr>os_log := os_log os1 @ [TransientOSFailure]\<rparr>)
              | UnsupportedEnvironment \<Rightarrow>
                  (inst\<lparr>Unsupported := True\<rparr>,
                   os1\<lparr>os_log := os_log os1 @ [UnsupportedEnvironment]\<rparr>)))"


text \<open>
  Modelled from the spec: what \<^verbatim>\<open>ResetState\<close> of section 4.5 clears in an instance, so
  that the next \<^verbatim>\<open>Apply\<close> is unconditional.
\<close>

definition ResetState_instance :: "TaskbarInstance \<Rightarrow> TaskbarInstance" where
  "ResetState_instance inst = inst\<lparr>lastApplied := None, Unsupported := False\<rparr>"

subsection \<open>Concrete inputs\<close>

text \<open>
  A configuration, an environment, a file system, a program state, a snapshot and a taskbar
  instance on which the theorems below are run. The stand-in for \<^verbatim>\<open>Deserialize\<close> reads
  only whether the file says \<open>hide\<close>.
\<close>

definition example_Config :: Config where
  "example_Config =
    \<lparr>DesktopAppearance = \<lparr>Accent = ACCENT_ENABLE_TRANSPARENTGRADIENT, Color = 0\<rparr>,
     VisibleWindowAppearance =
       \<lparr>Accent = ACCENT_ENABLE_TRANSPARENTGRADIENT, Color = 0, Enabled = False\<rparr>,
     MaximisedWindowAppearance =
       \<lparr>Accent = ACCENT_ENABLE_BLURBEHIND, Color = 0xAA000000, Enabled = True\<rparr>,
     StartOpenedAppearance = \<lparr>Accent = ACCENT_NORMAL, Color = 0, Enabled = True\<rparr>,
     CortanaOpenedAppearance = \<lparr>Accent = ACCENT_NORMAL, Color = 0, Enabled = True\<rparr>,
     TimelineOpenedAppearance = \<lparr>Accent = ACCENT_NORMAL, Color = 0, Enabled = True\<rparr>,
     Peek = WindowMaximisedOnMainMonitor,
     UseRegularAppearanceWhenPeeking = True,
     HideTray = False,
     LogVerbosity = warn,
     DisableSaving = False\<rparr>"

definition example_env :: env where
  "example_env =
    \<lparr>default_Config = example_Config,
     Deserialize = (\<lambda>text c. c\<lparr>HideTray := (text = ''hide'')\<rparr>),
     Serialize = (\<lambda>c. if HideTray c then ''hide'' else ''show''),
     CONFIG_FILE = ''config.json'',
     APP_NAME = ''TranslucentTB'',
     IgnoreCaseStringEquals = (\<lambda>a b. a = b),
     HasPackageIdentity = False,
     id_value = length,
     MessageBox_IDYES = (\<lambda>_. True)\<rparr>"

definition example_files :: filesystem where
  "example_files =
    \<lparr>nodes = [''config.json'' \<mapsto> RegularFile ''hide'', ''logs'' \<mapsto> Directory],
     unwritable = [''locked.json''],
     written = []\<rparr>"

definition example_prog :: prog where
  "example_prog =
    \<lparr>cfg = example_Config,
     run_config_file = ''config.json'',
     files = \<lparr>nodes = Map.empty, unwritable = [], written = []\<rparr>,
     icon_shown = True,
     log_level = warn,
     log_state = NotInitialized,
     startup_state = Startup_Disabled,
     msg_queue = [],
     effects = []\<rparr>"

definition example_snapshot :: WindowStateSnapshot where
  "example_snapshot =
    \<lparr>PeekActive = False, DesktopIsForeground = False, MainMonitor = 0, Monitors = [0, 1],
     ForegroundMaximised = (\<lambda>m. m = 1),
     ClassificationOn = (\<lambda>m. if m = 1 then MaximisedApp else RegularApp)\<rparr>"



subsection \<open>The callbacks that \<^verbatim>\<open>InitializeTray\<close> registers\<close>

text \<open>The callbacks that \<^verbatim>\<open>BindByMap\<close> registers for a table: one setter call per entry.\<close>

definition setters ::
  "('a \<Rightarrow> prog \<Rightarrow> prog) \<Rightarrow> ('a \<times> menu_id) list \<Rightarrow> (menu_id \<times> (prog \<Rightarrow> prog)) list" where
  "setters s table = map (\<lambda>(v, i). (i, s v)) table"

lemmas table_defs = DESKTOP_BUTTOM_MAP_def VISIBLE_BUTTOM_MAP_def MAXIMISED_BUTTON_MAP_def
  START_BUTTON_MAP_def CORTANA_BUTTON_MAP_def TIMELINE_BUTTON_MAP_def PEEK_BUTTON_MAP_def
  LOG_BUTTON_MAP_def

lemma mc_fold_register:
  "menu_callbacks (fold (\<lambda>(v, i) t. RegisterContextMenuCallback i (f v) t) table tray)
    = menu_callbacks tray @ setters f table"
  by (induction table arbitrary: tray) (auto simp: RegisterContextMenuCallback_def setters_def)

lemma mc_fold_enabled:
  "menu_callbacks (fold (\<lambda>(v, i) t. BindBoolToEnabled t i r) table tray) = menu_callbacks tray"
  by (induction table arbitrary: tray) (auto simp: BindBoolToEnabled_def RegisterCustomRefresh_def)

lemma mc_Register:
  "menu_callbacks (RegisterContextMenuCallback i f t) = menu_callbacks t @ [(i, f)]"
  by (simp add: RegisterContextMenuCallback_def)

lemma mc_Refresh: "menu_callbacks (RegisterCustomRefresh f t) = menu_callbacks t"
  by (simp add: RegisterCustomRefresh_def)

lemma mc_BindBool: "menu_callbacks (BindBool t i r) = menu_callbacks t @ [(i, toggle r)]"
  by (simp add: BindBool_def mc_Register mc_Refresh)

lemma mc_BindByMap: "menu_callbacks (BindByMap E t table g s) = menu_callbacks t @ setters s table"
  by (simp add: BindByMap_def Let_def mc_Refresh mc_fold_register)

lemma mc_BindByMap_ref:
  "menu_callbacks (BindByMap_ref E t table r) = menu_callbacks t @ setters (wr r) table"
  by (simp add: BindByMap_ref_def mc_BindByMap)

lemma mc_BindAppearance:
  "menu_callbacks (BindAppearance E t a colorId table)
    = menu_callbacks t @ setters (wr (Accent_of a)) table"
  by (simp add: BindAppearance_def BindColor_def mc_BindByMap_ref)

lemma mc_BindAppearance_optional:
  "menu_callbacks (BindAppearance_optional E t a enableId colorId table)
    = menu_callbacks t @ (enableId, toggle (Enabled_of a)) # setters (wr (Accent_of a)) table"
  by (simp add: BindAppearance_optional_def Let_def mc_fold_enabled mc_BindAppearance mc_BindBool)

lemma mc_autostart:
  "menu_callbacks (if b then RegisterContextMenuCallback i f t else t\<lparr>menu_edits := x\<rparr>)
    = menu_callbacks t @ (if b then [(i, f)] else [])"
  by (simp add: mc_Register)

text \<open>The whole registry, in the order of the calls in \<^verbatim>\<open>InitializeTray\<close>.\<close>

lemma mc_InitializeTray:
  "menu_callbacks (InitializeTray_tray E) =
     (ID_DESKTOP_ON_PEEK,
        toggle (cfg_field UseRegularAppearanceWhenPeeking UseRegularAppearanceWhenPeeking_update))
     # setters (wr (Accent_of (cfg_field DesktopAppearance DesktopAppearance_update)))
         DESKTOP_BUTTOM_MAP
     @ (ID_VISIBLE,
          toggle (Enabled_of (cfg_field VisibleWindowAppearance VisibleWindowAppearance_update)))
     # setters (wr (Accent_of (cfg_field VisibleWindowAppearance VisibleWindowAppearance_update)))
         VISIBLE_BUTTOM_MAP
     @ (ID_MAXIMISED,
          toggle (Enabled_of (cfg_field MaximisedWindowAppearance MaximisedWindowAppearance_update)))
     # setters (wr (Accent_of (cfg_field MaximisedWindowAppearance MaximisedWindowAppearance_update)))
         MAXIMISED_BUTTON_MAP
     @ (ID_START,
          toggle (Enabled_of (cfg_field StartOpenedAppearance StartOpenedAppearance_update)))
     # setters (wr (Accent_of (cfg_field StartOpenedAppearance StartOpenedAppearance_update)))
         START_BUTTON_MAP
     @ (ID_CORTANA,
          toggle (Enabled_of (cfg_field CortanaOpenedAppearance CortanaOpenedAppearance_update)))
     # setters (wr (Accent_of (cfg_field CortanaOpenedAppearance CortanaOpenedAppearance_update)))
         CORTANA_BUTTON_MAP
     @ (ID_TIMELINE,
          toggle (Enabled_of (cfg_field TimelineOpenedAppearance TimelineOpenedAppearance_update)))
     # setters (wr (Accent_of (cfg_field TimelineOpenedAppearance TimelineOpenedAppearance_update)))
         TIMELINE_BUTTON_MAP
     @ setters (wr (cfg_field Peek Peek_update)) PEEK_BUTTON_MAP
     @ (ID_OPENLOG, add_effect Log_Open)
     # setters set_log_level LOG_BUTTON_MAP
     @ [(ID_EDITSETTINGS, edit_settings E),
        (ID_RETURNTODEFAULTSETTINGS, return_to_default_settings E),
        (ID_DISABLESAVING, toggle (cfg_field DisableSaving DisableSaving_update)),
        (ID_HIDETRAY, hide_tray E),
        (ID_DUMPWORKER, add_effect Worker_DumpState),
        (ID_RESETWORKER, add_effect Worker_ResetState),
        (ID_ABOUT, add_effect AboutDialog_Run),
        (ID_EXITWITHOUTSAVING, PostQuitMessage)]
     @ (if HasPackageIdentity E then [(ID_AUTOSTART, toggle_autostart)] else [])
     @ [(ID_TIPS, add_effect (OpenLink (''https://'' @ APP_NAME E @ ''.github.io/tips''))),
        (ID_EXIT, \<lambda>st. snd (save_and_exit E st))]"
  unfolding InitializeTray_tray_def Let_def
  by (simp only: mc_Register mc_Refresh mc_BindBool mc_BindByMap mc_BindByMap_ref
        mc_BindAppearance mc_BindAppearance_optional mc_autostart
        TrayContextMenu.simps append_Nil append_Cons append_assoc)

lemmas click_eval = click_def mc_InitializeTray setters_def table_defs toggle_def cfg_field_def
  Accent_of_def Enabled_of_def

lemma click_unregistered:
  assumes "item \<notin> fst ` set (menu_callbacks tray)"
  shows "click tray item st = st"
proof -
  have "item \<notin> fst ` set cbs \<Longrightarrow> fold (\<lambda>(i, f) s. if i = item then f s else s) cbs x = x"
    for cbs :: "(menu_id \<times> (prog \<Rightarrow> prog)) list" and x
    by (induction cbs arbitrary: x) auto
  with assms show ?thesis by (simp add: click_def)
qed

lemma click_color_item:
  "item \<in> {ID_DESKTOP_COLOR, ID_VISIBLE_COLOR, ID_MAXIMISED_COLOR, ID_START_COLOR,
            ID_CORTANA_COLOR, ID_TIMELINE_COLOR}
   \<Longrightarrow> click (InitializeTray_tray E) item st = st"
  by (rule click_unregistered) (auto simp: mc_InitializeTray setters_def table_defs)

text \<open>
  The two diagnostic commands of the menu call the worker; each call is recorded and
  nothing else changes.
\<close>

lemma worker_menu_commands:
  "click (InitializeTray_tray E) ID_DUMPWORKER st = add_effect Worker_DumpState st"
  "click (InitializeTray_tray E) ID_RESETWORKER st = add_effect Worker_ResetState st"
  by (simp_all add: click_eval)

subsection \<open>\<^verbatim>\<open>SetConfig\<close> and the handler of \<^verbatim>\<open>WM_FILECHANGED\<close>\<close>

lemma cfg_SetConfig: "cfg (SetConfig newConfig st) = newConfig"
  by (simp add: SetConfig_def Let_def)

lemma files_SetConfig: "files (SetConfig newConfig st) = files st"
  by (simp add: SetConfig_def Let_def icon_Hide_def icon_Show_def Log_SetLevel_def)

lemma dispatch_FILECHANGED:
  "dispatch (InitializeTray_window E) WM_FILECHANGED wParam lParam st
     = (1, SetConfig (LoadConfig E (files st) (run_config_file st)) st)"
  by (simp add: dispatch_def InitializeTray_window_def RegisterCallback_def Let_def)

section \<open>The claims\<close>

subsection \<open>C1: how the shared configuration is updated\<close>

text \<open>
  Claim C1 says that every update of the shared \<^verbatim>\<open>Config\<close> replaces the whole value and
  that no code path assigns a single member in place. The menu command
  \<^verbatim>\<open>ID_DISABLESAVING\<close>, bound by \<^verbatim>\<open>BindBool\<close> to \<^verbatim>\<open>cfg.DisableSaving\<close>, is such a path: on
  the example state it leaves a configuration that is the old one with \<open>DisableSaving\<close>
  flipped, and that is not the configuration loaded from the file.
\<close>

theorem menu_command_mutates_field_counterexample:
  "cfg (click (InitializeTray_tray example_env) ID_DISABLESAVING example_prog)
     = example_Config\<lparr>DisableSaving := True\<rparr>
   \<and> cfg (click (InitializeTray_tray example_env) ID_DISABLESAVING example_prog)
     \<noteq> LoadConfig example_env (files example_prog) (run_config_file example_prog)"
  by (simp add: click_eval LoadConfig_def is_regular_file_def example_prog_def example_env_def
        example_Config_def)

text \<open>
  What each menu command bound by \<^verbatim>\<open>BindByMap\<close> or \<^verbatim>\<open>BindBool\<close> does to the program
  state, table by table and flag by flag.
\<close>

lemma click_desktop_accent:
  "(\<forall>(v, item) \<in> set DESKTOP_BUTTOM_MAP.
        click (InitializeTray_tray E) item st
          = st\<lparr>cfg := (cfg st)\<lparr>DesktopAppearance := (DesktopAppearance (cfg st))\<lparr>Accent := v\<rparr>\<rparr>\<rparr>)"
  by (auto simp: DESKTOP_BUTTOM_MAP_def) (simp_all add: click_eval)

lemma click_visible_accent:
  "(\<forall>(v, item) \<in> set VISIBLE_BUTTOM_MAP.
        click (InitializeTray_tray E) item st
          = st\<lparr>cfg := (cfg st)\<lparr>VisibleWindowAppearance := (VisibleWindowAppearance (cfg st))\<lparr>Accent := v\<rparr>\<rparr>\<rparr>)"
  by (auto simp: VISIBLE_BUTTOM_MAP_def) (simp_all add: click_eval)

lemma click_maximised_accent:
  "(\<forall>(v, item) \<in> set MAXIMISED_BUTTON_MAP.
        click (InitializeTray_tray E) item st
          = st\<lparr>cfg := (cfg st)\<lparr>MaximisedWindowAppearance := (MaximisedWindowAppearance (cfg st))\<lparr>Accent := v\<rparr>\<rparr>\<rparr>)"
  by (auto simp: MAXIMISED_BUTTON_MAP_def) (simp_all add: click_eval)

lemma click_start_accent:
  "(\<forall>(v, item) \<in> set START_BUTTON_MAP.
        click (InitializeTray_tray E) item st
          = st\<lparr>cfg := (cfg st)\<lparr>StartOpenedAppearance := (StartOpenedAppearance (cfg st))\<lparr>Accent := v\<rparr>\<rparr>\<rparr>)"
  by (auto simp: START_BUTTON_MAP_def) (simp_all add: click_eval)

lemma click_cortana_accent:
  "(\<forall>(v, item) \<in> set CORTANA_BUTTON_MAP.
        click (InitializeTray_tray E) item st
          = st\<lparr>cfg := (cfg st)\<lparr>CortanaOpenedAppearance := (CortanaOpenedAppearance (cfg st))\<lparr>Accent := v\<rparr>\<rparr>\<rparr>)"
  by (auto simp: CORTANA_BUTTON_MAP_def) (simp_all add: click_eval)

lemma click_timeline_accent:
  "(\<forall>(v, item) \<in> set TIMELINE_BUTTON_MAP.
        click (InitializeTray_tray E) item st
          = st\<lparr>cfg := (cfg st)\<lparr>TimelineOpenedAppearance := (TimelineOpenedAppearance (cfg st))\<lparr>Accent := v\<rparr>\<rparr>\<rparr>)"
  by (auto simp: TIMELINE_BUTTON_MAP_def) (simp_all add: click_eval)

lemma click_peek_entries:
  "(\<forall>(v, item) \<in> set PEEK_BUTTON_MAP.
        click (InitializeTray_tray E) item st = st\<lparr>cfg := (cfg st)\<lparr>Peek := v\<rparr>\<rparr>)"
  by (auto simp: PEEK_BUTTON_MAP_def) (simp_all add: click_eval)

lemma click_log_entries:
  "(\<forall>(v, item) \<in> set LOG_BUTTON_MAP.
        click (InitializeTray_tray E) item st
          = st\<lparr>log_level := v, cfg := (cfg st)\<lparr>LogVerbosity := v\<rparr>\<rparr>)"
  by (auto simp: LOG_BUTTON_MAP_def)
     (simp_all add: click_eval set_log_level_def Log_SetLevel_def Let_def)

lemma click_bool_flags:
  "click (InitializeTray_tray E) ID_DESKTOP_ON_PEEK st
       = st\<lparr>cfg := (cfg st)\<lparr>UseRegularAppearanceWhenPeeking :=
                \<not> UseRegularAppearanceWhenPeeking (cfg st)\<rparr>\<rparr>"
  "click (InitializeTray_tray E) ID_DISABLESAVING st
       = st\<lparr>cfg := (cfg st)\<lparr>DisableSaving := \<not> DisableSaving (cfg st)\<rparr>\<rparr>"
  "click (InitializeTray_tray E) ID_VISIBLE st
       = st\<lparr>cfg := (cfg st)\<lparr>VisibleWindowAppearance :=
                (VisibleWindowAppearance (cfg st))\<lparr>Enabled := \<not> Enabled (VisibleWindowAppearance (cfg st))\<rparr>\<rparr>\<rparr>"
  "click (InitializeTray_tray E) ID_MAXIMISED st
       = st\<lparr>cfg := (cfg st)\<lparr>MaximisedWindowAppearance :=
                (MaximisedWindowAppearance (cfg st))\<lparr>Enabled := \<not> Enabled (MaximisedWindowAppearance (cfg st))\<rparr>\<rparr>\<rparr>"
  "click (InitializeTray_tray E) ID_START st
       = st\<lparr>cfg := (cfg st)\<lparr>StartOpenedAppearance :=
                (StartOpenedAppearance (cfg st))\<lparr>Enabled := \<not> Enabled (StartOpenedAppearance (cfg st))\<rparr>\<rparr>\<rparr>"
  "click (InitializeTray_tray E) ID_CORTANA st
       = st\<lparr>cfg := (cfg st)\<lparr>CortanaOpenedAppearance :=
                (CortanaOpenedAppearance (cfg st))\<lparr>Enabled := \<not> Enabled (CortanaOpenedAppearance (cfg st))\<rparr>\<rparr>\<rparr>"
  "click (InitializeTray_tray E) ID_TIMELINE st
       = st\<lparr>cfg := (cfg st)\<lparr>TimelineOpenedAppearance :=
                (TimelineOpenedAppearance (cfg st))\<lparr>Enabled := \<not> Enabled (TimelineOpenedAppearance (cfg st))\<rparr>\<rparr>\<rparr>"
  by (simp_all add: click_eval)

text \<open>
  Claim C1, amended: on the config-changed trigger \<^verbatim>\<open>SetConfig\<close> assigns the complete new
  \<^verbatim>\<open>Config\<close> over the old one, whatever the old one was. Every menu command that
  \<^verbatim>\<open>InitializeTray\<close> binds with \<^verbatim>\<open>BindBool\<close> or \<^verbatim>\<open>BindByMap\<close> assigns one member of the shared
  \<^verbatim>\<open>Config\<close> in place and leaves every other member, and the rest of the program state, as
  it was: each entry of the six accent tables stores its accent in the appearance the table
  is bound to, each entry of the peek table stores its behaviour in \<open>Peek\<close>, each entry of
  the log table stores its level in \<open>LogVerbosity\<close> (and sets the level of the logger), and
  each of the seven flag commands negates its flag.
\<close>

theorem config_update_paths:
  "cfg (SetConfig newConfig st) = newConfig
   \<and> (\<forall>(v, item) \<in> set DESKTOP_BUTTOM_MAP.
        click (InitializeTray_tray E) item st
          = st\<lparr>cfg := (cfg st)\<lparr>DesktopAppearance := (DesktopAppearance (cfg st))\<lparr>Accent := v\<rparr>\<rparr>\<rparr>)
   \<and> (\<forall>(v, item) \<in> set VISIBLE_BUTTOM_MAP.
        click (InitializeTray_tray E) item st
          = st\<lparr>cfg := (cfg st)\<lparr>VisibleWindowAppearance := (VisibleWindowAppearance (cfg st))\<lparr>Accent := v\<rparr>\<rparr>\<rparr>)
   \<and> (\<forall>(v, item) \<in> set MAXIMISED_BUTTON_MAP.
        click (InitializeTray_tray E) item st
          = st\<lparr>cfg := (cfg st)\<lparr>MaximisedWindowAppearance := (MaximisedWindowAppearance (cfg st))\<lparr>Accent := v\<rparr>\<rparr>\<rparr>)
   \<and> (\<forall>(v, item) \<in> set START_BUTTON_MAP.
        click (InitializeTray_tray E) item st
          = st\<lparr>cfg := (cfg st)\<lparr>StartOpenedAppearance := (StartOpenedAppearance (cfg st))\<lparr>Accent := v\<rparr>\<rparr>\<rparr>)
   \<and> (\<forall>(v, item) \<in> set CORTANA_BUTTON_MAP.
        click (InitializeTray_tray E) item st
          = st\<lparr>cfg := (cfg st)\<lparr>CortanaOpenedAppearance := (CortanaOpenedAppearance (cfg st))\<lparr>Accent := v\<rparr>\<rparr>\<rparr>)
   \<and> (\<forall>(v, item) \<in> set TIMELINE_BUTTON_MAP.
        click (InitializeTray_tray E) item st
          = st\<lparr>cfg := (cfg st)\<lparr>TimelineOpenedAppearance := (TimelineOpenedAppearance (cfg st))\<lparr>Accent := v\<rparr>\<rparr>\<rparr>)
   \<and> (\<forall>(v, item) \<in> set PEEK_BUTTON_MAP.
        click (InitializeTray_tray E) item st = st\<lparr>cfg := (cfg st)\<lparr>Peek := v\<rparr>\<rparr>)
   \<and> (\<forall>(v, item) \<in> set LOG_BUTTON_MAP.
        click (InitializeTray_tray E) item st
          = st\<lparr>log_level := v, cfg := (cfg st)\<lparr>LogVerbosity := v\<rparr>\<rparr>)
   \<and> click (InitializeTray_tray E) ID_DESKTOP_ON_PEEK st
       = st\<lparr>cfg := (cfg st)\<lparr>UseRegularAppearanceWhenPeeking :=
                \<not> UseRegularAppearanceWhenPeeking (cfg st)\<rparr>\<rparr>
   \<and> click (InitializeTray_tray E) ID_DISABLESAVING st
       = st\<lparr>cfg := (cfg st)\<lparr>DisableSaving := \<not> DisableSaving (cfg st)\<rparr>\<rparr>
   \<and> click (InitializeTray_tray E) ID_VISIBLE st
       = st\<lparr>cfg := (cfg st)\<lparr>VisibleWindowAppearance :=
                (VisibleWindowAppearance (cfg st))\<lparr>Enabled := \<not> Enabled (VisibleWindowAppearance (cfg st))\<rparr>\<rparr>\<rparr>
   \<and> click (InitializeTray_tray E) ID_MAXIMISED st
       = st\<lparr>cfg := (cfg st)\<lparr>MaximisedWindowAppearance :=
                (MaximisedWindowAppearance (cfg st))\<lparr>Enabled := \<not> Enabled (MaximisedWindowAppearance (cfg st))\<rparr>\<rparr>\<rparr>
   \<and> click (InitializeTray_tray E) ID_START st
       = st\<lparr>cfg := (cfg st)\<lparr>StartOpenedAppearance :=
                (StartOpenedAppearance (cfg st))\<lparr>Enabled := \<not> Enabled (StartOpenedAppearance (cfg st))\<rparr>\<rparr>\<rparr>
   \<and> click (InitializeTray_tray E) ID_CORTANA st
       = st\<lparr>cfg := (cfg st)\<lparr>CortanaOpenedAppearance :=
                (CortanaOpenedAppearance (cfg st))\<lparr>Enabled := \<not> Enabled (CortanaOpenedAppearance (cfg st))\<rparr>\<rparr>\<rparr>
   \<and> click (InitializeTray_tray E) ID_TIMELINE st
       = st\<lparr>cfg := (cfg st)\<lparr>TimelineOpenedAppearance :=
                (TimelineOpenedAppearance (cfg st))\<lparr>Enabled := \<not> Enabled (TimelineOpenedAppearance (cfg st))\<rparr>\<rparr>\<rparr>"
  by (intro conjI cfg_SetConfig click_desktop_accent click_visible_accent
        click_maximised_accent click_start_accent click_cortana_accent click_timeline_accent
        click_peek_entries click_log_entries click_bool_flags)

theorem config_update_paths_witness:
  "cfg (SetConfig (example_Config\<lparr>HideTray := True\<rparr>) example_prog)
     = example_Config\<lparr>HideTray := True\<rparr>
   \<and> cfg (click (InitializeTray_tray example_env) ID_PEEK_HIDE example_prog)
     = example_Config\<lparr>Peek := AlwaysHide\<rparr>
   \<and> cfg (click (InitializeTray_tray example_env) ID_VISIBLE_BLUR example_prog)
     = example_Config\<lparr>VisibleWindowAppearance :=
         \<lparr>Accent = ACCENT_ENABLE_BLURBEHIND, Color = 0, Enabled = False\<rparr>\<rparr>
   \<and> cfg (click (InitializeTray_tray example_env) ID_TIMELINE example_prog)
     = example_Config\<lparr>TimelineOpenedAppearance :=
         \<lparr>Accent = ACCENT_NORMAL, Color = 0, Enabled = False\<rparr>\<rparr>"
  using config_update_paths [of "example_Config\<lparr>HideTray := True\<rparr>" example_prog example_env]
  by (simp add: table_defs example_prog_def example_Config_def)

subsection \<open>C2: applying an unchanged appearance twice\<close>

text \<open>
  One run of \<^verbatim>\<open>Apply\<close> makes at most one call, whatever the answer: a failed call is not
  repeated in the same run. After \<^verbatim>\<open>ResetState\<close> the next run makes the call even when the
  appearance is the one applied before.
\<close>

lemma Apply_no_busy_retry:
  "length (os_calls (snd (Apply answer inst a os))) \<le> length (os_calls os) + 1"
  by (simp add: Apply_def Let_def split: os_result.splits)

lemma Apply_after_ResetState:
  "os_calls (snd (Apply answer (ResetState_instance inst) a os))
     = os_calls os @ [(TaskbarWindow inst, a)]"
  by (simp add: Apply_def ResetState_instance_def same_appearance_def Let_def
        split: os_result.splits)




subsection \<open>C3: the fallback of the resolver\<close>

text \<open>
  Claim C3: whenever the optional appearance that the classification selects is disabled,
  \<^verbatim>\<open>Resolve\<close> returns the desktop appearance; in particular it does so for a regular
  application when the visible-window appearance is disabled. \<^verbatim>\<open>Resolve\<close> is a total
  function, so it yields an appearance for every input.
\<close>

theorem Resolve_falls_back_to_desktop:
  "(\<not> Enabled (selected_appearance c (ClassificationOn snap mon))
      \<longrightarrow> Resolve c snap mon = DesktopAppearance c)
   \<and> (\<not> Enabled (VisibleWindowAppearance c) \<and> ClassificationOn snap mon = RegularApp
      \<longrightarrow> Resolve c snap mon = DesktopAppearance c)"
  by (simp add: Resolve_def Let_def)

theorem Resolve_falls_back_to_desktop_witness:
  "\<not> Enabled (VisibleWindowAppearance example_Config)
   \<and> ClassificationOn example_snapshot 0 = RegularApp
   \<and> Resolve example_Config example_snapshot 0
       = \<lparr>Accent = ACCENT_ENABLE_TRANSPARENTGRADIENT, Color = 0\<rparr>"
  using Resolve_falls_back_to_desktop [of example_Config example_snapshot 0]
  by (simp add: example_Config_def example_snapshot_def)

subsection \<open>C4: the config-changed trigger\<close>

text \<open>
  Claim C4: the handler that \<^verbatim>\<open>InitializeTray\<close> registers for \<^verbatim>\<open>WM_FILECHANGED\<close> loads the
  configuration from \<^verbatim>\<open>run.config_file\<close> and leaves it as the shared \<^verbatim>\<open>Config\<close>, whatever
  the shared value was before; the file system is not changed by it.
\<close>

theorem filechanged_replaces_config:
  "cfg (snd (dispatch (fst (InitializeTray E st0)) WM_FILECHANGED wParam lParam st))
     = LoadConfig E (files st) (run_config_file st)
   \<and> files (snd (dispatch (fst (InitializeTray E st0)) WM_FILECHANGED wParam lParam st)) = files st"
  by (simp add: InitializeTray_def dispatch_FILECHANGED cfg_SetConfig files_SetConfig)

theorem filechanged_replaces_config_witness:
  "cfg (snd (dispatch (fst (InitializeTray example_env example_prog)) WM_FILECHANGED 0 0
          (example_prog\<lparr>files := example_files\<rparr>)))
     = example_Config\<lparr>HideTray := True\<rparr>"
  using filechanged_replaces_config [of example_env example_prog 0 0
          "example_prog\<lparr>files := example_files\<rparr>"]
  by (simp add: LoadConfig_def is_regular_file_def file_text_def example_files_def
        example_env_def example_prog_def)

subsection \<open>C6: the folder watcher only posts a message\<close>

text \<open>
  Claim C6: the callback of the folder watcher changes nothing but the message queue, to
  which it appends at most one \<^verbatim>\<open>WM_FILECHANGED\<close>; the shared \<^verbatim>\<open>Config\<close> and the file system
  are as before when it returns, and what it does never depends on the \<^verbatim>\<open>Config\<close>. The
  configuration is loaded and assigned when the message loop hands the posted message to
  its handler.
\<close>

theorem folder_change_callback_only_posts:
  "folder_change_callback E file st
     = st\<lparr>msg_queue := msg_queue (folder_change_callback E file st)\<rparr>
   \<and> (msg_queue (folder_change_callback E file st) = msg_queue st
       \<or> msg_queue (folder_change_callback E file st) = msg_queue st @ [WM_FILECHANGED])
   \<and> cfg (folder_change_callback E file st) = cfg st
   \<and> files (folder_change_callback E file st) = files st
   \<and> folder_change_callback E file (st\<lparr>cfg := c\<rparr>) = (folder_change_callback E file st)\<lparr>cfg := c\<rparr>
   \<and> (msg_queue st = [] \<and> (file = [] \<or> IgnoreCaseStringEquals E file (CONFIG_FILE E)) \<longrightarrow>
        cfg (pump (InitializeTray_window E) (folder_change_callback E file st))
          = LoadConfig E (files st) (run_config_file st))"
  by (simp add: folder_change_callback_def post_message_def pump_def dispatch_FILECHANGED
        cfg_SetConfig)

theorem folder_change_callback_only_posts_witness:
  "folder_change_callback example_env ''config.json'' (example_prog\<lparr>files := example_files\<rparr>)
     = example_prog\<lparr>files := example_files, msg_queue := [WM_FILECHANGED]\<rparr>
   \<and> cfg (pump (InitializeTray_window example_env)
        (folder_change_callback example_env ''config.json''
           (example_prog\<lparr>files := example_files\<rparr>)))
     = example_Config\<lparr>HideTray := True\<rparr>"
  using folder_change_callback_only_posts [of example_env "''config.json''"
          "example_prog\<lparr>files := example_files\<rparr>"]
  by (simp add: folder_change_callback_def post_message_def LoadConfig_def is_regular_file_def
        file_text_def example_files_def example_env_def example_prog_def)

subsection \<open>C7: the keys of the accent tables\<close>

text \<open>
  Claim C7: each of the six tables from accent state to menu identifier has exactly the
  five accent states as its keys, each of them once.
\<close>

theorem accent_tables_key_sets:
  "set (map fst DESKTOP_BUTTOM_MAP) = {ACCENT_NORMAL, ACCENT_ENABLE_TRANSPARENTGRADIENT,
      ACCENT_ENABLE_GRADIENT, ACCENT_ENABLE_BLURBEHIND, ACCENT_ENABLE_ACRYLICBLURBEHIND}
   \<and> set (map fst VISIBLE_BUTTOM_MAP) = {ACCENT_NORMAL, ACCENT_ENABLE_TRANSPARENTGRADIENT,
      ACCENT_ENABLE_GRADIENT, ACCENT_ENABLE_BLURBEHIND, ACCENT_ENABLE_ACRYLICBLURBEHIND}
   \<and> set (map fst MAXIMISED_BUTTON_MAP) = {ACCENT_NORMAL, ACCENT_ENABLE_TRANSPARENTGRADIENT,
      ACCENT_ENABLE_GRADIENT, ACCENT_ENABLE_BLURBEHIND, ACCENT_ENABLE_ACRYLICBLURBEHIND}
   \<and> set (map fst START_BUTTON_MAP) = {ACCENT_NORMAL, ACCENT_ENABLE_TRANSPARENTGRADIENT,
      ACCENT_ENABLE_GRADIENT, ACCENT_ENABLE_BLURBEHIND, ACCENT_ENABLE_ACRYLICBLURBEHIND}
   \<and> set (map fst CORTANA_BUTTON_MAP) = {ACCENT_NORMAL, ACCENT_ENABLE_TRANSPARENTGRADIENT,
      ACCENT_ENABLE_GRADIENT, ACCENT_ENABLE_BLURBEHIND, ACCENT_ENABLE_ACRYLICBLURBEHIND}
   \<and> set (map fst TIMELINE_BUTTON_MAP) = {ACCENT_NORMAL, ACCENT_ENABLE_TRANSPARENTGRADIENT,
      ACCENT_ENABLE_GRADIENT, ACCENT_ENABLE_BLURBEHIND, ACCENT_ENABLE_ACRYLICBLURBEHIND}
   \<and> distinct (map fst DESKTOP_BUTTOM_MAP) \<and> distinct (map fst VISIBLE_BUTTOM_MAP)
   \<and> distinct (map fst MAXIMISED_BUTTON_MAP) \<and> distinct (map fst START_BUTTON_MAP)
   \<and> distinct (map fst CORTANA_BUTTON_MAP) \<and> distinct (map fst TIMELINE_BUTTON_MAP)"
  by (simp add: table_defs)

subsection \<open>C8: the colour items do nothing\<close>

text \<open>
  Claim C8: \<^verbatim>\<open>BindColor\<close> returns the tray as it got it, with no callback and no refresh
  handler added. So \<^verbatim>\<open>BindAppearance\<close> registers nothing for its colour item unless the
  table names that item, and in the tray that \<^verbatim>\<open>InitializeTray\<close> builds, activating any of
  the six colour items returns the program state unchanged, the \<open>Color\<close> members included.
\<close>

theorem color_item_has_no_effect:
  "BindColor tray item color = tray
   \<and> (colorId \<notin> snd ` set table \<longrightarrow>
        click (BindAppearance E tray appearance colorId table) colorId st = click tray colorId st)
   \<and> click (InitializeTray_tray E) ID_DESKTOP_COLOR st = st
   \<and> click (InitializeTray_tray E) ID_VISIBLE_COLOR st = st
   \<and> click (InitializeTray_tray E) ID_MAXIMISED_COLOR st = st
   \<and> click (InitializeTray_tray E) ID_START_COLOR st = st
   \<and> click (InitializeTray_tray E) ID_CORTANA_COLOR st = st
   \<and> click (InitializeTray_tray E) ID_TIMELINE_COLOR st = st"
proof -
  have "fold (\<lambda>(i, f) s. if i = colorId then f s else s) (setters g table) x = x"
    if "colorId \<notin> snd ` set table" for g :: "ACCENT_STATE \<Rightarrow> prog \<Rightarrow> prog" and x
    using that by (induction table arbitrary: x) (auto simp: setters_def)
  then have "colorId \<notin> snd ` set table \<longrightarrow>
        click (BindAppearance E tray appearance colorId table) colorId st = click tray colorId st"
    by (simp add: click_def mc_BindAppearance)
  then show ?thesis
    by (simp add: BindColor_def click_color_item)
qed

theorem color_item_has_no_effect_witness:
  "ID_VISIBLE_COLOR \<notin> snd ` set VISIBLE_BUTTOM_MAP
   \<and> click (BindAppearance example_env
         \<lparr>menu_callbacks = [], custom_refresh = [], menu_edits = []\<rparr>
         (cfg_field VisibleWindowAppearance VisibleWindowAppearance_update)
         ID_VISIBLE_COLOR VISIBLE_BUTTOM_MAP) ID_VISIBLE_COLOR example_prog = example_prog
   \<and> click (InitializeTray_tray example_env) ID_VISIBLE_COLOR example_prog = example_prog"
  using color_item_has_no_effect [where
          tray = "\<lparr>menu_callbacks = [], custom_refresh = [], menu_edits = []\<rparr>"
          and colorId = ID_VISIBLE_COLOR and table = VISIBLE_BUTTOM_MAP and E = example_env
          and appearance = "cfg_field VisibleWindowAppearance VisibleWindowAppearance_update"
          and st = example_prog]
  by (simp add: VISIBLE_BUTTOM_MAP_def click_def)

subsection \<open>C9: when \<^verbatim>\<open>SaveConfig\<close> writes\<close>




subsection \<open>C10: loading a path that is not a regular file\<close>

text \<open>
  Claim C10: for a path that is not a regular file (it does not exist, or it names
  something else, such as a directory) \<^verbatim>\<open>LoadConfig\<close> returns the default-constructed
  \<^verbatim>\<open>Config\<close>; the file is not opened and nothing is parsed.
\<close>

theorem LoadConfig_not_regular_file:
  "\<not> is_regular_file fs file \<Longrightarrow> LoadConfig E fs file = default_Config E"
  by (simp add: LoadConfig_def)

theorem LoadConfig_not_regular_file_witness:
  "\<not> is_regular_file example_files ''deleted.json''
   \<and> LoadConfig example_env example_files ''deleted.json'' = example_Config
   \<and> \<not> is_regular_file example_files ''logs''
   \<and> LoadConfig example_env example_files ''logs'' = example_Config"
  using LoadConfig_not_regular_file [of example_files "''deleted.json''" example_env]
        LoadConfig_not_regular_file [of example_files "''logs''" example_env]
  by (simp add: is_regular_file_def example_files_def example_env_def)

end
